theory Spec2Isabelle
  imports Complex_Main "HOL-Library.AList"
begin

section \<open>Values, exceptions and responses\<close>

text \<open>
  The handlers of \<^verbatim>\<open>app/main.py\<close> read the payment provider's event as nested Python
  dictionaries. A value of such a dictionary is a JSON value; a dictionary is a list of
  key and value pairs read with \<open>map_of\<close>. Python's \<^verbatim>\<open>None\<close> is \<open>JNull\<close>. JSON numbers
  with a fraction or an exponent are left out: the amounts of the provider are integers
  in minor units.
\<close>

datatype json =
    JNull
  | JBool bool
  | JInt int
  | JStr string
  | JList "json list"
  | JObj "(string \<times> json) list"

text \<open>
  The Python exceptions that the modelled statements raise themselves, and those that the
  libraries and the database driver may raise.
\<close>

datatype py_exception =
    KeyError string
  | TypeError
  | ValidationError
  | OverflowError
  | AttributeError
  | DBAPIError

text \<open>
  A handler ends with a response, with an \<^verbatim>\<open>HTTPException\<close> (status code, detail,
  headers) or with an exception that nothing catches; the framework answers the last
  with status 500.
\<close>

datatype failure =
    HTTPException int string "(string \<times> string) list"
  | Raised py_exception

datatype response = Response int | RedirectResponse string int

fun status_code :: "failure + response \<Rightarrow> int" where
  "status_code (Inl (HTTPException c d h)) = c"
| "status_code (Inl (Raised x)) = 500"
| "status_code (Inr (Response c)) = c"
| "status_code (Inr (RedirectResponse u c)) = c"

text \<open>
  \<^verbatim>\<open>v[k]\<close> with a string key: a dictionary without the key raises \<^verbatim>\<open>KeyError\<close>, a
  value of any other type raises \<^verbatim>\<open>TypeError\<close>.
\<close>

fun getitem :: "json \<Rightarrow> string \<Rightarrow> py_exception + json" where
  "getitem (JObj kvs) k = (case map_of kvs k of None \<Rightarrow> Inl (KeyError k) | Some v \<Rightarrow> Inr v)"
| "getitem v k = Inl TypeError"

text \<open>\<^verbatim>\<open>v[k1][k2]...\<close>, read from the left; the first failing subscript raises.\<close>

fun getitems :: "json \<Rightarrow> string list \<Rightarrow> py_exception + json" where
  "getitems v [] = Inr v"
| "getitems v (k # ks) = (case getitem v k of Inl x \<Rightarrow> Inl x | Inr w \<Rightarrow> getitems w ks)"

section \<open>Python floats\<close>

text \<open>
  A Python float is a binary64 value. A finite one is the rational number it denotes, and
  \<open>binary64 x\<close> is the float that a correctly rounded operation with the exact result \<open>x\<close>
  returns: the nearest value with a 53-bit significand (ties to the even significand,
  exponents from -1022 on, smaller values in steps of \<open>2 ^ -1074\<close>), or \<open>None\<close> when
  the rounded value is beyond the largest finite float. The true division of two Python
  integers is correctly rounded and raises \<^verbatim>\<open>OverflowError\<close> in the latter case.
\<close>

text \<open>\<^verbatim>\<open>int.bit_length\<close> of a positive integer.\<close>

function bit_length :: "int \<Rightarrow> nat" where
  "bit_length n = (if n \<le> 0 then 0 else Suc (bit_length (n div 2)))"
  by pat_completeness auto
termination
  by (relation "measure nat") auto

declare bit_length.simps [simp del]

definition pow2 :: "int \<Rightarrow> rat" where
  "pow2 e = (if 0 \<le> e then 2 ^ nat e else 1 / 2 ^ nat (- e))"

text \<open>The binary exponent of a positive rational: \<open>2 ^ e \<le> x < 2 ^ (e + 1)\<close>.\<close>

definition exponent :: "rat \<Rightarrow> int" where
  "exponent x =
     (case quotient_of x of
        (a, b) \<Rightarrow>
          (let d = int (bit_length a) - int (bit_length b)
           in if pow2 d \<le> x then d else d - 1))"

definition round_half_even :: "rat \<Rightarrow> int" where
  "round_half_even x =
     (let f = \<lfloor>x\<rfloor>; r = x - of_int f
      in if r < 1 / 2 then f else if 1 / 2 < r then f + 1 else if even f then f else f + 1)"

definition binary64 :: "rat \<Rightarrow> rat option" where
  "binary64 x =
     (if x = 0 then Some 0
      else (let e = max (exponent \<bar>x\<bar>) (- 1022);
                ulp = pow2 (e - 52);
                y = of_int (round_half_even (\<bar>x\<bar> / ulp)) * ulp
            in if pow2 1024 \<le> y then None else Some (sgn x * y)))"

section \<open>The tables of \<^verbatim>\<open>app/models.py\<close>\<close>

text \<open>
  A row of a table carries its primary key. The relationship attributes
  (\<^verbatim>\<open>donations\<close>, \<^verbatim>\<open>donor\<close>, \<^verbatim>\<open>cause\<close>) are derived from the foreign keys and are not
  columns. A \<^verbatim>\<open>datetime\<close> is a number of seconds since 1970-01-01 00:00:00 UTC.
\<close>

record user =
  id_user :: int
  username :: string
  email :: string
  password :: string

record cause =
  id_cause :: int
  name :: string
  tagline :: string
  description :: string
  end_date :: int
  banner_image :: "string option"
  cover_image :: "string option"

text \<open>\<^verbatim>\<open>amount\<close> is a Python float: the rational that the binary64 value denotes.\<close>

record donation =
  id_donation :: int
  amount :: rat
  created_at :: int
  donor_id :: int
  cause_id :: int

text \<open>
  The persisted state. \<open>donation_seq\<close> is the key that the database gives to the next
  inserted donation (a sequence of the database, not code of the repository).
\<close>

record store =
  users :: "user list"
  causes :: "cause list"
  donations :: "donation list"
  donation_seq :: int

text \<open>
  \<^verbatim>\<open>session.get(Cause, key)\<close>: the row with that primary key, or \<^verbatim>\<open>None\<close>. The handler
  passes the value of the event's metadata as it is, whatever its type. Which integer key
  the database driver takes that value for is not decided by the repository: it is the
  parameter \<open>cause_key\<close>, which returns the key, or no key (no row is found), or the
  exception that the driver raises (for an integer beyond the range of the column, say).
\<close>

type_synonym cause_key_fn = "json \<Rightarrow> py_exception + int option"

definition session_get :: "cause_key_fn \<Rightarrow> cause list \<Rightarrow> json \<Rightarrow> py_exception + cause option" where
  "session_get cause_key cs key =
     (case cause_key key of
        Inl x \<Rightarrow> Inl x
      | Inr None \<Rightarrow> Inr None
      | Inr (Some i) \<Rightarrow> Inr (find (\<lambda>c. id_cause c = i) cs))"

text \<open>
  \<^verbatim>\<open>session.execute(select(User).where(User.email == v)).first()\<close>: the first row whose
  email is the string \<open>v\<close>, or \<^verbatim>\<open>None\<close>. No row has a null email.
\<close>

definition select_user_by_email :: "user list \<Rightarrow> json \<Rightarrow> user option" where
  "select_user_by_email us v = (case v of JStr e \<Rightarrow> find (\<lambda>u. email u = e) us | _ \<Rightarrow> None)"

text \<open>
  \<^verbatim>\<open>amount / 100\<close>: true division of a number (a Python bool is a number). The result is
  the float nearest to the exact quotient; a quotient beyond the floats raises
  \<^verbatim>\<open>OverflowError\<close>.
\<close>

definition truediv_100 :: "json \<Rightarrow> py_exception + rat" where
  "truediv_100 v =
     (case v of
        JInt n \<Rightarrow>
          (case binary64 (of_int n / 100) of None \<Rightarrow> Inl OverflowError | Some q \<Rightarrow> Inr q)
      | JBool b \<Rightarrow>
          (case binary64 ((if b then 1 else 0) / 100) of
             None \<Rightarrow> Inl OverflowError
           | Some q \<Rightarrow> Inr q)
      | _ \<Rightarrow> Inl TypeError)"

section \<open>The payment webhook: \<^verbatim>\<open>stripe_webhook\<close>\<close>

text \<open>
  \<^verbatim>\<open>stripe.Webhook.construct_event(payload, sig_header, endpoint_secret)\<close> belongs to the
  provider's library. It is a parameter of the handler. Its first argument here is the
  clock: the library compares the timestamp of the signature header with the current
  time, so the same header may be accepted now and refused later. It returns the event, or
  raises one of the two exceptions that the handler catches, or another exception, which
  the handler does not catch.
\<close>

datatype stripe_error = ValueError | SignatureVerificationError | OtherError py_exception

type_synonym construct_event_fn =
  "int \<Rightarrow> string \<Rightarrow> string option \<Rightarrow> string \<Rightarrow> stripe_error + json"

text \<open>
  The body of the \<^verbatim>\<open>if event["type"] == "charge.succeeded"\<close> branch, statement by
  statement. It returns the store after \<^verbatim>\<open>session.commit()\<close>; an exception leaves
  the session uncommitted. The donation's \<^verbatim>\<open>created_at\<close> is the clock's value \<open>now\<close>.
  The \<^verbatim>\<open>print\<close> of the branch writes to the standard output only.

  The selected row is subscripted (\<^verbatim>\<open>user = user[0]\<close>) before the test
  \<^verbatim>\<open>if not cause or not user\<close>: when no row was found, subscripting \<^verbatim>\<open>None\<close> raises
  \<^verbatim>\<open>TypeError\<close>. A \<^verbatim>\<open>User\<close> object is never false, so the test fails for a missing
  cause only.
\<close>

definition charge_succeeded ::
  "cause_key_fn \<Rightarrow> int \<Rightarrow> store \<Rightarrow> json \<Rightarrow> failure + store" where
  "charge_succeeded cause_key now st event =
     (case getitems event [''data'', ''object'', ''metadata''] of
        Inl x \<Rightarrow> Inl (Raised x)
      | Inr data \<Rightarrow>
     (case getitems event [''data'', ''object'', ''amount''] of
        Inl x \<Rightarrow> Inl (Raised x)
      | Inr amount_minor \<Rightarrow>
     (case getitem data ''id'' of
        Inl x \<Rightarrow> Inl (Raised x)
      | Inr key \<Rightarrow>
     (case session_get cause_key (causes st) key of
        Inl x \<Rightarrow> Inl (Raised x)
      | Inr cause_row \<Rightarrow>
     (case getitems event [''data'', ''object'', ''billing_details'', ''email''] of
        Inl x \<Rightarrow> Inl (Raised x)
      | Inr mail \<Rightarrow>
     (case select_user_by_email (users st) mail of
        None \<Rightarrow> Inl (Raised TypeError)
      | Some u \<Rightarrow>
     (case cause_row of
        None \<Rightarrow> Inl (HTTPException 404 ''Cause or User not found'' [])
      | Some c \<Rightarrow>
     (case truediv_100 amount_minor of
        Inl x \<Rightarrow> Inl (Raised x)
      | Inr a \<Rightarrow>
          Inr (st\<lparr>donations := donations st @
                     [\<lparr>id_donation = donation_seq st, amount = a, created_at = now,
                       donor_id = id_user u, cause_id = id_cause c\<rparr>],
                   donation_seq := donation_seq st + 1\<rparr>)))))))))"

definition stripe_webhook ::
  "construct_event_fn \<Rightarrow> cause_key_fn \<Rightarrow> string \<Rightarrow> int \<Rightarrow> store \<Rightarrow> string \<Rightarrow> string option
     \<Rightarrow> (failure + response) \<times> store" where
  "stripe_webhook construct_event cause_key endpoint_secret now st payload sig_header =
     (case construct_event now payload sig_header endpoint_secret of
        Inl ValueError \<Rightarrow> (Inl (HTTPException 400 ''Invalid payload'' []), st)
      | Inl SignatureVerificationError \<Rightarrow> (Inl (HTTPException 400 ''Invalid signature'' []), st)
      | Inl (OtherError x) \<Rightarrow> (Inl (Raised x), st)
      | Inr event \<Rightarrow>
     (case getitem event ''type'' of
        Inl x \<Rightarrow> (Inl (Raised x), st)
      | Inr ty \<Rightarrow>
          if ty = JStr ''charge.succeeded'' then
            (case charge_succeeded cause_key now st event of
               Inl f \<Rightarrow> (Inl f, st)
             | Inr st' \<Rightarrow> (Inr (Response 200), st'))
          else (Inr (Response 200), st)))"

section \<open>The checkout session: \<^verbatim>\<open>create_checkout_session\<close>\<close>

text \<open>
  The arguments of \<^verbatim>\<open>stripe.checkout.Session.create\<close>. The call itself is the
  provider's: the parameter \<open>provider\<close> returns the URL of the hosted session, or the
  text of the exception it raises. The handler's second result lists the requests it
  made to the provider.
\<close>

record checkout_params =
  payment_method_types :: "string list"
  mode :: string
  success_url :: string
  cancel_url :: string
  line_items :: "json list"
  metadata :: "(string \<times> json) list"

definition create_checkout_session ::
  "(checkout_params \<Rightarrow> string + string) \<Rightarrow> string \<Rightarrow> store \<Rightarrow> int
     \<Rightarrow> (failure + response) \<times> checkout_params list" where
  "create_checkout_session provider domain_url st ident =
     (case find (\<lambda>c. id_cause c = ident) (causes st) of
        None \<Rightarrow> (Inl (HTTPException 404 ''Cause not found'' []), [])
      | Some c \<Rightarrow>
          (let params =
             \<lparr>payment_method_types = [''card''],
              mode = ''payment'',
              success_url = domain_url @ ''/donation/payment/success'',
              cancel_url = domain_url @ ''/donation/payment/cancel'',
              line_items = [JObj [(''price'', JStr ''price_1QDNjALZvTUR5WIHOFYuOVUs''),
                                  (''quantity'', JInt 1)]],
              metadata = [(''cause_id'', JInt ident)]\<rparr>
           in (case provider params of
                 Inl msg \<Rightarrow> (Inl (HTTPException 400 msg []), [params])
               | Inr url \<Rightarrow> (Inr (RedirectResponse url 303), [params]))))"

section \<open>Tokens: \<^verbatim>\<open>app/jwt.py\<close>\<close>

text \<open>
  \<^verbatim>\<open>strftime("%Y-%m-%d %H:%M:%S")\<close> of an instant given in seconds since 1970, by the
  usual conversion of a day number to a date of the Gregorian calendar.
\<close>

definition digit :: "int \<Rightarrow> char" where
  "digit d = ''0123456789'' ! nat d"

definition pad2 :: "int \<Rightarrow> string" where
  "pad2 n = [digit (n div 10 mod 10), digit (n mod 10)]"

definition pad4 :: "int \<Rightarrow> string" where
  "pad4 n = pad2 (n div 100) @ pad2 (n mod 100)"

definition civil_from_days :: "int \<Rightarrow> int \<times> int \<times> int" where
  "civil_from_days days =
     (let z = days + 719468;
          era = z div 146097;
          doe = z - era * 146097;
          yoe = (doe - doe div 1460 + doe div 36524 - doe div 146096) div 365;
          doy = doe - (365 * yoe + yoe div 4 - yoe div 100);
          mp = (5 * doy + 2) div 153;
          d = doy - (153 * mp + 2) div 5 + 1;
          m = (if mp < 10 then mp + 3 else mp - 9);
          y = yoe + era * 400 + (if m \<le> 2 then 1 else 0)
      in (y, m, d))"

definition strftime :: "int \<Rightarrow> string" where
  "strftime t =
     (case civil_from_days (t div 86400) of
        (y, m, d) \<Rightarrow>
          pad4 y @ ''-'' @ pad2 m @ ''-'' @ pad2 d @ '' '' @
          pad2 (t mod 86400 div 3600) @ '':'' @ pad2 (t mod 3600 div 60) @ '':'' @
          pad2 (t mod 60))"

text \<open>
  The token library (\<^verbatim>\<open>jose.jwt\<close>) is not code of the repository. A token is
  modelled symbolically: \<open>Signed alg key claims\<close> is the compact string that
  \<^verbatim>\<open>jwt.encode(claims, key, alg)\<close> returns, \<open>Opaque s\<close> is any other string.
  \<^verbatim>\<open>jwt.decode\<close> raises \<^verbatim>\<open>JWTError\<close> (here \<open>None\<close>) unless the token was signed
  with the given key and algorithm; of the registered claims it checks, the model keeps
  \<^verbatim>\<open>exp\<close>, the expiry: when the claims have it, it must be an integer not before the
  current time.
\<close>

datatype token = Signed string string "(string \<times> json) list" | Opaque string

definition jwt_encode :: "(string \<times> json) list \<Rightarrow> string \<Rightarrow> string \<Rightarrow> token" where
  "jwt_encode claims key alg = Signed alg key claims"

definition jwt_decode ::
  "int \<Rightarrow> token \<Rightarrow> string \<Rightarrow> string \<Rightarrow> (string \<times> json) list option" where
  "jwt_decode now tok key alg =
     (case tok of
        Opaque s \<Rightarrow> None
      | Signed a k claims \<Rightarrow>
          if a = alg \<and> k = key
          then (case map_of claims ''exp'' of
                  None \<Rightarrow> Some claims
                | Some (JInt e) \<Rightarrow> if e < now then None else Some claims
                | Some v \<Rightarrow> None)
          else None)"

definition ALGORITHM :: string where
  "ALGORITHM = ''HS256''"

definition ACCESS_TOKEN_EXPIRE_MINUTES :: int where
  "ACCESS_TOKEN_EXPIRE_MINUTES = 30"

text \<open>
  \<^verbatim>\<open>create_access_token(data)\<close> at the instant \<open>now\<close> (\<^verbatim>\<open>datetime.utcnow()\<close>), with
  the signing secret of the settings as a parameter. The expiry instant is written into
  the claims as a formatted string under the key \<^verbatim>\<open>expire\<close>.
\<close>

definition create_access_token :: "string \<Rightarrow> int \<Rightarrow> (string \<times> json) list \<Rightarrow> token" where
  "create_access_token SECRET_KEY now data =
     (let expire = now + ACCESS_TOKEN_EXPIRE_MINUTES * 60;
          to_encode = AList.update ''expire'' (JStr (strftime expire)) data
      in jwt_encode to_encode SECRET_KEY ALGORITHM)"

record Token =
  access_token :: token
  token_type :: string

record DataToken =
  id_DataToken :: "string option"

text \<open>
  \<^verbatim>\<open>DataToken(id=v)\<close> for the field \<^verbatim>\<open>id: Optional[str]\<close>. The repository uses version 2
  of pydantic (\<^verbatim>\<open>pydantic_settings\<close>, \<^verbatim>\<open>model_dump\<close>), which does not convert a value
  of another type to a string: it raises \<^verbatim>\<open>ValidationError\<close>.
\<close>

definition DataToken_init :: "json \<Rightarrow> py_exception + DataToken" where
  "DataToken_init v =
     (case v of
        JStr s \<Rightarrow> Inr \<lparr>id_DataToken = Some s\<rparr>
      | JNull \<Rightarrow> Inr \<lparr>id_DataToken = None\<rparr>
      | _ \<Rightarrow> Inl ValidationError)"

text \<open>\<^verbatim>\<open>payload.get(k)\<close>: the value, or \<^verbatim>\<open>None\<close> for a missing key.\<close>

definition dict_get :: "(string \<times> json) list \<Rightarrow> string \<Rightarrow> json" where
  "dict_get d k = (case map_of d k of None \<Rightarrow> JNull | Some v \<Rightarrow> v)"

text \<open>
  \<^verbatim>\<open>verify_token_access\<close>. The \<^verbatim>\<open>except JWTError\<close> clause catches the failure of
  \<^verbatim>\<open>jwt.decode\<close> only; the exception of \<^verbatim>\<open>DataToken\<close> is not a \<^verbatim>\<open>JWTError\<close> and leaves
  the function as it is.
\<close>

definition verify_token_access ::
  "string \<Rightarrow> int \<Rightarrow> token \<Rightarrow> failure \<Rightarrow> failure + DataToken" where
  "verify_token_access SECRET_KEY now tok credentials_exception =
     (case jwt_decode now tok SECRET_KEY ALGORITHM of
        None \<Rightarrow> Inl credentials_exception
      | Some payload \<Rightarrow>
          (let ident = dict_get payload ''user_id'' in
           if ident = JNull then Inl credentials_exception
           else (case DataToken_init ident of
                   Inl x \<Rightarrow> Inl (Raised x)
                 | Inr token_data \<Rightarrow> Inr token_data)))"

text \<open>
  \<^verbatim>\<open>get_current_user\<close>. The query compares the integer key column with the string of
  the token; which key, if any, the database takes that string for is the parameter
  \<open>key_of_str\<close>. The result of \<^verbatim>\<open>first()\<close> is subscripted without a test.
\<close>

definition credentials_exception :: failure where
  "credentials_exception =
     HTTPException 401 ''Could not Validate Credentials'' [(''WWW-Authenticate'', ''Bearer'')]"

definition get_current_user ::
  "(string \<Rightarrow> int option) \<Rightarrow> string \<Rightarrow> int \<Rightarrow> store \<Rightarrow> token \<Rightarrow> failure + user" where
  "get_current_user key_of_str SECRET_KEY now st tok =
     (case verify_token_access SECRET_KEY now tok credentials_exception of
        Inl f \<Rightarrow> Inl f
      | Inr token_data \<Rightarrow>
          (case find (\<lambda>u. Some (id_user u) = Option.bind (id_DataToken token_data) key_of_str)
                  (users st) of
             None \<Rightarrow> Inl (Raised TypeError)
           | Some u \<Rightarrow> Inr u))"

section \<open>Login: the second \<^verbatim>\<open>register\<close> of \<^verbatim>\<open>app/main.py\<close>\<close>

text \<open>
  The handler of \<^verbatim>\<open>POST /login/\<close> is the second function named \<^verbatim>\<open>register\<close>.
  \<^verbatim>\<open>verify_password\<close> comes from \<^verbatim>\<open>app/utils.py\<close>, which is not among the sources; it
  is a parameter.
\<close>

definition register_login ::
  "(string \<Rightarrow> string \<Rightarrow> bool) \<Rightarrow> string \<Rightarrow> int \<Rightarrow> store \<Rightarrow> string \<Rightarrow> string
     \<Rightarrow> failure + Token" where
  "register_login verify_password SECRET_KEY now st uname pw =
     (case find (\<lambda>u. username u = uname) (users st) of
        None \<Rightarrow> Inl (HTTPException 400 ''Invalid credentials'' [])
      | Some existing_user \<Rightarrow>
          if \<not> verify_password pw (password existing_user)
          then Inl (HTTPException 401 ''Invalid credentials'' [])
          else Inr \<lparr>access_token =
                      create_access_token SECRET_KEY now
                        [(''user_id'', JInt (id_user existing_user))],
                    token_type = ''bearer''\<rparr>)"

section \<open>Example data\<close>

text \<open>
  A stand-in for the provider's library in the examples. A signature header is the
  endpoint secret, made at the instant \<open>signed_at\<close>; it is accepted until 300 seconds
  after that instant (the tolerance of the library), and the payload is decoded to the
  given event.
\<close>

definition accept_signed :: "json \<Rightarrow> int \<Rightarrow> construct_event_fn" where
  "accept_signed event signed_at now payload sig_header endpoint_secret =
     (if sig_header = Some endpoint_secret \<and> now - 300 \<le> signed_at then Inr event
      else Inl SignatureVerificationError)"

text \<open>
  A stand-in for the database driver in the examples: an integer within the 64-bit range
  is the key itself and one beyond it raises, a bool is 1 or 0, the strings \<open>7\<close> and
  \<open>9\<close> are the keys 7 and 9, every other value is no key.
\<close>

definition example_cause_key :: cause_key_fn where
  "example_cause_key v =
     (case v of
        JInt i \<Rightarrow> if - (2 ^ 63) \<le> i \<and> i < 2 ^ 63 then Inr (Some i) else Inl OverflowError
      | JBool b \<Rightarrow> Inr (Some (if b then 1 else 0))
      | JStr s \<Rightarrow> Inr (if s = ''7'' then Some 7 else if s = ''9'' then Some 9 else None)
      | _ \<Rightarrow> Inr None)"

text \<open>A successful charge of 2500 minor units for cause 7, paid by \<open>donor@example.org\<close>.\<close>

definition charge_event :: "(string \<times> json) list \<Rightarrow> string \<Rightarrow> json" where
  "charge_event meta mail =
     JObj [(''id'', JStr ''evt_1''),
           (''type'', JStr ''charge.succeeded''),
           (''data'', JObj [(''object'',
              JObj [(''amount'', JInt 2500),
                    (''metadata'', JObj meta),
                    (''billing_details'', JObj [(''email'', JStr mail)])])])]"

text \<open>The same event with another amount.\<close>

definition charge_event_amount :: "json \<Rightarrow> (string \<times> json) list \<Rightarrow> string \<Rightarrow> json" where
  "charge_event_amount amount_minor meta mail =
     JObj [(''id'', JStr ''evt_1''),
           (''type'', JStr ''charge.succeeded''),
           (''data'', JObj [(''object'',
              JObj [(''amount'', amount_minor),
                    (''metadata'', JObj meta),
                    (''billing_details'', JObj [(''email'', JStr mail)])])])]"

definition example_store :: store where
  "example_store =
     \<lparr>users = [\<lparr>id_user = 3, username = ''alice'', email = ''donor@example.org'',
                 password = ''hash:secret''\<rparr>],
      causes = [\<lparr>id_cause = 7, name = ''Wells'', tagline = ''Water'', description = ''Clean water'',
                  end_date = 1767225600, banner_image = None, cover_image = None\<rparr>],
      donations = [],
      donation_seq = 1\<rparr>"

text \<open>A store with two users, two causes and an earlier donation.\<close>

definition two_row_store :: store where
  "two_row_store =
     \<lparr>users = [\<lparr>id_user = 5, username = ''carol'', email = ''carol@example.org'',
                 password = ''hash:pw''\<rparr>,
               \<lparr>id_user = 3, username = ''alice'', email = ''donor@example.org'',
                 password = ''hash:secret''\<rparr>],
      causes = [\<lparr>id_cause = 9, name = ''Books'', tagline = ''Read'', description = ''School books'',
                  end_date = 1767225600, banner_image = None, cover_image = None\<rparr>,
                \<lparr>id_cause = 7, name = ''Wells'', tagline = ''Water'', description = ''Clean water'',
                  end_date = 1767225600, banner_image = None, cover_image = None\<rparr>],
      donations = [\<lparr>id_donation = 1, amount = 10, created_at = 1704000000, donor_id = 5,
                     cause_id = 9\<rparr>],
      donation_seq = 2\<rparr>"

text \<open>A stand-in for \<^verbatim>\<open>verify_password\<close> in the examples.\<close>

definition example_verify_password :: "string \<Rightarrow> string \<Rightarrow> bool" where
  "example_verify_password plain hashed = (hashed = ''hash:'' @ plain)"

text \<open>
  A stand-in for the database's reading of a string as a user key in the examples.
\<close>

definition example_key_of_str :: "string \<Rightarrow> int option" where
  "example_key_of_str s =
     (if s = ''3'' then Some 3 else if s = ''42'' then Some 42 else None)"

section \<open>Lemmas about floats\<close>

lemma pow2_powi: "pow2 e = power_int 2 e"
  by (simp add: pow2_def power_int_def power_inverse field_simps)

lemma pow2_pos: "0 < pow2 e"
  by (simp add: pow2_powi)

lemma pow2_mono: "a \<le> b \<Longrightarrow> pow2 a \<le> pow2 b"
  unfolding pow2_powi by (rule power_int_increasing) simp_all

lemma pow2_less_cancel: "pow2 a < pow2 b \<Longrightarrow> a < b"
  using pow2_mono [of b a] by (cases "a < b") simp_all

lemma bit_length_bounds:
  "0 < n \<Longrightarrow> \<exists>k. bit_length n = Suc k \<and> 2 ^ k \<le> n \<and> n < 2 ^ Suc k"
proof (induction n rule: bit_length.induct)
  case (1 n)
  show ?case
  proof (cases "n div 2 = 0")
    case True
    with "1.prems" have "n = 1" by presburger
    then have "bit_length n = Suc 0"
      by (simp add: bit_length.simps [of 1] bit_length.simps [of 0])
    with \<open>n = 1\<close> show ?thesis by simp
  next
    case False
    with "1.prems" have pos: "0 < n div 2" by presburger
    from "1.IH" [OF _ pos] "1.prems" obtain k where
      k: "bit_length (n div 2) = Suc k" "2 ^ k \<le> n div 2" "n div 2 < 2 ^ Suc k"
      by auto
    have "bit_length n = Suc (Suc k)"
      using "1.prems" k(1) by (subst bit_length.simps) simp
    moreover have "2 ^ Suc k \<le> n"
      using k(2) by (simp; presburger)
    moreover have "n < 2 ^ Suc (Suc k)"
      using k(3) by (simp; presburger)
    ultimately show ?thesis by blast
  qed
qed

text \<open>The exponent is the one of the definition of a float: \<open>2 ^ e \<le> x < 2 ^ (e + 1)\<close>.\<close>

lemma exponent_bounds:
  assumes "0 < x"
  shows "pow2 (exponent x) \<le> x \<and> x < pow2 (exponent x + 1)"
proof -
  obtain a b where q: "quotient_of x = (a, b)" by (cases "quotient_of x")
  then have b: "0 < b" and x: "x = of_int a / of_int b"
    by (simp_all add: quotient_of_denom_pos quotient_of_div)
  with assms have a: "0 < a"
    by (simp add: zero_less_divide_iff)
  from bit_length_bounds [OF a] obtain i where
    i: "bit_length a = Suc i" "2 ^ i \<le> a" "a < 2 ^ Suc i" by blast
  from bit_length_bounds [OF b] obtain j where
    j: "bit_length b = Suc j" "2 ^ j \<le> b" "b < 2 ^ Suc j" by blast
  let ?d = "int i - int j"
  have ra: "(2::rat) ^ i \<le> of_int a" "of_int a < (2::rat) ^ Suc i"
    using i(2,3)
    by (metis of_int_le_iff of_int_numeral of_int_power,
        metis of_int_less_iff of_int_numeral of_int_power)
  have rb: "(2::rat) ^ j \<le> of_int b" "of_int b < (2::rat) ^ Suc j"
    using j(2,3)
    by (metis of_int_le_iff of_int_numeral of_int_power,
        metis of_int_less_iff of_int_numeral of_int_power)
  have bpos: "(0::rat) < of_int b" using b by simp
  have lo: "pow2 (?d - 1) \<le> x"
  proof -
    have "pow2 (?d - 1) = 2 ^ i / 2 ^ Suc j"
      by (simp add: pow2_powi power_int_diff)
    also have "\<dots> \<le> (of_int a :: rat) / of_int b"
      using ra(1) rb(2) bpos a by (intro frac_le) simp_all
    finally show ?thesis by (simp add: x)
  qed
  have hi: "x < pow2 (?d + 1)"
  proof -
    have "(of_int a :: rat) / of_int b < 2 ^ Suc i / 2 ^ j"
      using ra(2) rb(1) bpos a by (intro frac_less) simp_all
    also have "\<dots> = pow2 (?d + 1)"
      by (simp add: pow2_powi power_int_diff power_int_add)
    finally show ?thesis by (simp add: x)
  qed
  have e: "exponent x = (if pow2 ?d \<le> x then ?d else ?d - 1)"
    by (simp add: exponent_def q i(1) j(1) Let_def)
  show ?thesis
  proof (cases "pow2 ?d \<le> x")
    case True
    with e hi show ?thesis by simp
  next
    case False
    with e lo show ?thesis by simp
  qed
qed

lemma round_half_even_ge_floor: "\<lfloor>x\<rfloor> \<le> round_half_even x"
  by (simp add: round_half_even_def Let_def)

lemma round_half_even_near: "\<bar>of_int (round_half_even x) - x\<bar> \<le> 1 / 2"
proof -
  define f where "f = \<lfloor>x\<rfloor>"
  have fl: "of_int f \<le> x" "x < of_int f + 1"
    unfolding f_def by linarith+
  consider "x - of_int f < 1 / 2" | "1 / 2 < x - of_int f" | "x - of_int f = 1 / 2"
    by linarith
  then show ?thesis
  proof cases
    case 1
    then have "round_half_even x = f"
      by (simp add: round_half_even_def Let_def f_def)
    with 1 fl show ?thesis by simp
  next
    case 2
    then have "round_half_even x = f + 1"
      by (simp add: round_half_even_def Let_def f_def)
    with 2 fl show ?thesis by simp
  next
    case 3
    then have "round_half_even x = f \<or> round_half_even x = f + 1"
      by (simp add: round_half_even_def Let_def f_def)
    with 3 fl show ?thesis by auto
  qed
qed

text \<open>A result of magnitude \<open>2 ^ 1024\<close> or more has no float.\<close>

lemma binary64_overflow:
  assumes "pow2 1024 \<le> \<bar>x\<bar>"
  shows "binary64 x = None"
proof -
  from assms pow2_pos [of 1024] have pos: "0 < \<bar>x\<bar>" by linarith
  then have nz: "x \<noteq> 0" by simp
  let ?e = "exponent \<bar>x\<bar>"
  from exponent_bounds [OF pos] have lo: "pow2 ?e \<le> \<bar>x\<bar>" and hi: "\<bar>x\<bar> < pow2 (?e + 1)"
    by simp_all
  from assms hi have "pow2 1024 < pow2 (?e + 1)" by linarith
  then have big: "1024 \<le> ?e" using pow2_less_cancel [of 1024 "?e + 1"] by simp
  then have e: "max ?e (- 1022) = ?e" by simp
  let ?ulp = "pow2 (?e - 52)"
  let ?z = "\<bar>x\<bar> / ?ulp"
  have ulp: "0 < ?ulp" by (rule pow2_pos)
  have split: "pow2 ?e = 2 ^ 52 * ?ulp"
    by (simp add: pow2_powi power_int_diff)
  have "(2::rat) ^ 52 \<le> ?z"
    using lo ulp by (simp add: split pos_le_divide_eq)
  then have "(2::int) ^ 52 \<le> \<lfloor>?z\<rfloor>"
    by (simp add: le_floor_iff)
  with round_half_even_ge_floor [of ?z] have "(2::int) ^ 52 \<le> round_half_even ?z"
    by linarith
  then have "(2::rat) ^ 52 \<le> of_int (round_half_even ?z)"
    by (metis of_int_le_iff of_int_numeral of_int_power)
  then have "2 ^ 52 * ?ulp \<le> of_int (round_half_even ?z) * ?ulp"
    using ulp by (simp add: mult_right_mono)
  with split have "pow2 ?e \<le> of_int (round_half_even ?z) * ?ulp" by simp
  moreover have "pow2 1024 \<le> pow2 ?e"
    using big by (rule pow2_mono)
  ultimately have "pow2 1024 \<le> of_int (round_half_even ?z) * ?ulp" by linarith
  then show ?thesis
    using nz by (simp add: binary64_def e Let_def)
qed

text \<open>A float result is within half a unit in the last place of the exact result.\<close>

lemma binary64_nearest:
  assumes "binary64 x = Some y"
  shows "\<bar>y - x\<bar> \<le> pow2 (max (exponent \<bar>x\<bar>) (- 1022) - 52) / 2"
proof (cases "x = 0")
  case True
  with assms have "y = 0" by (simp add: binary64_def)
  with True pow2_pos [of "max (exponent \<bar>x\<bar>) (- 1022) - 52"] show ?thesis by simp
next
  case False
  define ulp where "ulp = pow2 (max (exponent \<bar>x\<bar>) (- 1022) - 52)"
  define z where "z = \<bar>x\<bar> / ulp"
  define M where "M = of_int (round_half_even z) * ulp"
  have ulp: "0 < ulp" unfolding ulp_def by (rule pow2_pos)
  from assms False have "y = sgn x * (of_int (round_half_even (\<bar>x\<bar> /
      pow2 (max (exponent \<bar>x\<bar>) (- 1022) - 52))) * pow2 (max (exponent \<bar>x\<bar>) (- 1022) - 52))"
    by (simp add: binary64_def Let_def split: if_splits)
  then have y: "y = sgn x * M"
    unfolding M_def z_def ulp_def .
  have zu: "z * ulp = \<bar>x\<bar>"
    using ulp by (simp add: z_def)
  have "M - \<bar>x\<bar> = (of_int (round_half_even z) - z) * ulp"
    by (simp only: M_def left_diff_distrib zu)
  then have "\<bar>M - \<bar>x\<bar>\<bar> = \<bar>of_int (round_half_even z) - z\<bar> * ulp"
    using ulp by (simp add: abs_mult)
  also have "\<dots> \<le> 1 / 2 * ulp"
    using round_half_even_near [of z] ulp by (intro mult_right_mono) simp_all
  finally have near: "\<bar>M - \<bar>x\<bar>\<bar> \<le> ulp / 2" by simp
  have "sgn x * (M - \<bar>x\<bar>) = sgn x * M - sgn x * \<bar>x\<bar>"
    by (rule right_diff_distrib)
  also have "\<dots> = y - x"
    by (simp only: y mult_sgn_abs)
  finally have "y - x = sgn x * (M - \<bar>x\<bar>)"
    by (rule sym)
  then have "\<bar>y - x\<bar> = \<bar>sgn x\<bar> * \<bar>M - \<bar>x\<bar>\<bar>"
    by (simp only: abs_mult)
  also have "\<bar>sgn x\<bar> = 1"
    using False by (simp add: abs_sgn_eq)
  finally have "\<bar>y - x\<bar> = \<bar>M - \<bar>x\<bar>\<bar>" by simp
  with near show ?thesis
    unfolding ulp_def by simp
qed

lemma binary64_relative_error:
  assumes "binary64 x = Some y" and "pow2 (- 1022) \<le> \<bar>x\<bar>"
  shows "\<bar>y - x\<bar> \<le> \<bar>x\<bar> / 2 ^ 53"
proof -
  from assms(2) pow2_pos [of "- 1022"] have pos: "0 < \<bar>x\<bar>" by linarith
  let ?e = "exponent \<bar>x\<bar>"
  from exponent_bounds [OF pos] have lo: "pow2 ?e \<le> \<bar>x\<bar>" and hi: "\<bar>x\<bar> < pow2 (?e + 1)"
    by simp_all
  from assms(2) hi have "pow2 (- 1022) < pow2 (?e + 1)" by linarith
  then have "- 1022 \<le> ?e" using pow2_less_cancel [of "- 1022" "?e + 1"] by simp
  then have e: "max ?e (- 1022) = ?e" by simp
  from binary64_nearest [OF assms(1)] have "\<bar>y - x\<bar> \<le> pow2 (?e - 52) / 2"
    by (simp only: e)
  also have "pow2 (?e - 52) / 2 = pow2 ?e / 2 ^ 53"
    by (simp add: pow2_powi power_int_diff)
  also have "\<dots> \<le> \<bar>x\<bar> / 2 ^ 53"
    using lo by (simp add: divide_right_mono)
  finally show ?thesis .
qed

text \<open>The float quotient of an integer by 100 has a relative error of \<open>2 ^ -53\<close> at most.\<close>

lemma quotient_by_100_error:
  assumes "binary64 (of_int n / 100) = Some a"
  shows "\<bar>a - of_int n / 100\<bar> \<le> \<bar>of_int n / 100\<bar> / 2 ^ 53"
proof (cases "n = 0")
  case True
  with assms show ?thesis by (simp add: binary64_def)
next
  case False
  then have "1 \<le> \<bar>n\<bar>" by linarith
  then have "(of_int 1 :: rat) \<le> of_int \<bar>n\<bar>" by (simp only: of_int_le_iff)
  then have "(1 :: rat) \<le> \<bar>of_int n\<bar>" by simp
  then have "(1 :: rat) / 100 \<le> \<bar>of_int n / 100\<bar>" by simp
  moreover have "pow2 (- 1022) \<le> 1 / 100"
    by (simp add: pow2_def)
  ultimately have "pow2 (- 1022) \<le> \<bar>of_int n / 100\<bar>" by linarith
  with assms show ?thesis by (rule binary64_relative_error)
qed

text \<open>Three quotients: an exact one, a rounded one, and one beyond the floats.\<close>

lemma truediv_100_2500: "truediv_100 (JInt 2500) = Inr 25"
  by code_simp

lemma truediv_100_2599:
  "truediv_100 (JInt 2599) = Inr (7315534644709949 / 281474976710656)"
  by code_simp

lemma truediv_100_overflow: "truediv_100 (JInt (10 ^ 400)) = Inl OverflowError"
proof -
  have "pow2 1024 \<le> \<bar>of_int (10 ^ 400) / 100\<bar>"
    by (simp add: pow2_def)
  then have "binary64 (of_int (10 ^ 400) / 100) = None"
    by (rule binary64_overflow)
  then show ?thesis
    by (simp only: truediv_100_def json.case option.case)
qed

section \<open>Lemmas about the webhook handler\<close>

lemma getitems_snoc:
  "getitems v (ks @ [k]) = (case getitems v ks of Inl x \<Rightarrow> Inl x | Inr w \<Rightarrow> getitem w k)"
  by (induction ks arbitrary: v) (auto split: sum.splits)

text \<open>In a table with distinct keys, the row found for a key is the row that has it.\<close>

lemma find_distinct_key:
  assumes "distinct (map f xs)" and "x \<in> set xs" and "f x = k"
  shows "find (\<lambda>y. f y = k) xs = Some x"
  using assms by (induction xs) force+

text \<open>
  A successful run of the branch appends one donation, and the outcome of the branch
  depends on the store through the user and cause tables only.
\<close>

lemma charge_succeeded_Inr:
  assumes "charge_succeeded cause_key now st ev = Inr st'"
  shows "\<exists>a uid cid.
           st' = st\<lparr>donations := donations st @
                     [\<lparr>id_donation = donation_seq st, amount = a, created_at = now,
                       donor_id = uid, cause_id = cid\<rparr>],
                   donation_seq := donation_seq st + 1\<rparr> \<and>
           (\<forall>now2 st2. users st2 = users st \<longrightarrow> causes st2 = causes st \<longrightarrow>
              charge_succeeded cause_key now2 st2 ev =
                Inr (st2\<lparr>donations := donations st2 @
                       [\<lparr>id_donation = donation_seq st2, amount = a, created_at = now2,
                         donor_id = uid, cause_id = cid\<rparr>],
                     donation_seq := donation_seq st2 + 1\<rparr>))"
proof -
  from assms obtain data amt key mail u c a where
    steps: "getitems ev [''data'', ''object'', ''metadata''] = Inr data"
      "getitems ev [''data'', ''object'', ''amount''] = Inr amt"
      "getitem data ''id'' = Inr key"
      "session_get cause_key (causes st) key = Inr (Some c)"
      "getitems ev [''data'', ''object'', ''billing_details'', ''email''] = Inr mail"
      "select_user_by_email (users st) mail = Some u"
      "truediv_100 amt = Inr a" and
    st': "st' = st\<lparr>donations := donations st @
                     [\<lparr>id_donation = donation_seq st, amount = a, created_at = now,
                       donor_id = id_user u, cause_id = id_cause c\<rparr>],
                   donation_seq := donation_seq st + 1\<rparr>"
    unfolding charge_succeeded_def
    by (simp split: sum.splits option.splits)
  have again: "charge_succeeded cause_key now2 st2 ev =
          Inr (st2\<lparr>donations := donations st2 @
                 [\<lparr>id_donation = donation_seq st2, amount = a, created_at = now2,
                   donor_id = id_user u, cause_id = id_cause c\<rparr>],
               donation_seq := donation_seq st2 + 1\<rparr>)"
    if "users st2 = users st" "causes st2 = causes st" for now2 st2
    unfolding charge_succeeded_def
    by (simp only: steps that sum.case option.case)
  from st' again show ?thesis
    by blast
qed

lemma charge_succeeded_Inl:
  assumes "charge_succeeded cause_key now st ev = Inl f"
    and "users st2 = users st" and "causes st2 = causes st"
  shows "charge_succeeded cause_key now2 st2 ev = Inl f"
  using assms unfolding charge_succeeded_def
  by (auto split: sum.splits option.splits)

text \<open>
  The two ways in which the branch misses a row. A missing user is met by the subscript
  of the empty result, a missing cause (with the user found) by the test for 404.
\<close>

lemma missing_user_raises_TypeError:
  assumes "construct_event now payload sig_header endpoint_secret = Inr event"
    and "getitem event ''type'' = Inr (JStr ''charge.succeeded'')"
    and "getitems event [''data'', ''object'', ''metadata''] = Inr data"
    and "getitems event [''data'', ''object'', ''amount''] = Inr a"
    and "getitem data ''id'' = Inr key"
    and "session_get cause_key (causes st) key = Inr cause_row"
    and "getitems event [''data'', ''object'', ''billing_details'', ''email''] = Inr mail"
    and "select_user_by_email (users st) mail = None"
  shows "stripe_webhook construct_event cause_key endpoint_secret now st payload sig_header
           = (Inl (Raised TypeError), st)"
  unfolding stripe_webhook_def charge_succeeded_def
  by (simp only: assms sum.case option.case prod.case) simp

lemma missing_cause_is_404:
  assumes "construct_event now payload sig_header endpoint_secret = Inr event"
    and "getitem event ''type'' = Inr (JStr ''charge.succeeded'')"
    and "getitems event [''data'', ''object'', ''metadata''] = Inr data"
    and "getitems event [''data'', ''object'', ''amount''] = Inr a"
    and "getitem data ''id'' = Inr key"
    and "session_get cause_key (causes st) key = Inr None"
    and "getitems event [''data'', ''object'', ''billing_details'', ''email''] = Inr mail"
    and "select_user_by_email (users st) mail = Some u"
  shows "stripe_webhook construct_event cause_key endpoint_secret now st payload sig_header
           = (Inl (HTTPException 404 ''Cause or User not found'' []), st)"
  unfolding stripe_webhook_def charge_succeeded_def
  by (simp only: assms sum.case option.case prod.case) simp

text \<open>When the quotient of the amount is beyond the floats, nothing is recorded.\<close>

lemma quotient_overflow_raises:
  assumes "construct_event now payload sig_header endpoint_secret = Inr event"
    and "getitem event ''type'' = Inr (JStr ''charge.succeeded'')"
    and "getitems event [''data'', ''object'', ''metadata''] = Inr data"
    and "getitems event [''data'', ''object'', ''amount''] = Inr a"
    and "getitem data ''id'' = Inr key"
    and "session_get cause_key (causes st) key = Inr (Some c)"
    and "getitems event [''data'', ''object'', ''billing_details'', ''email''] = Inr mail"
    and "select_user_by_email (users st) mail = Some u"
    and "truediv_100 a = Inl OverflowError"
  shows "stripe_webhook construct_event cause_key endpoint_secret now st payload sig_header
           = (Inl (Raised OverflowError), st)"
  unfolding stripe_webhook_def charge_succeeded_def
  by (simp only: assms sum.case option.case prod.case) simp

text \<open>
  The header that the example library accepted is refused a day later: the verdict of
  the library depends on the clock.
\<close>

lemma replay_outside_tolerance:
  "stripe_webhook (accept_signed (charge_event [(''id'', JInt 7)] ''donor@example.org'') 1704067200)
     example_cause_key ''whsec'' (1704067200 + 86400) st ''payload'' (Some ''whsec'')
     = (Inl (HTTPException 400 ''Invalid signature'' []), st)"
  by (simp add: stripe_webhook_def accept_signed_def)

section \<open>Claims about the webhook handler\<close>

text \<open>
  C1, as the claim states it: every accepted \<^verbatim>\<open>charge.succeeded\<close> event whose cause
  and user are found would record a donation and be answered with status 200. For an
  amount of \<open>10 ^ 400\<close> minor units the cause 7 and the user are found, but the quotient
  by 100 is beyond the floats: the handler ends with an uncaught \<^verbatim>\<open>OverflowError\<close>
  (status 500) and the store is as before.
\<close>

theorem quotient_overflow_counterexample:
  "session_get example_cause_key (causes example_store) (JInt 7)
     = Inr (Some \<lparr>id_cause = 7, name = ''Wells'', tagline = ''Water'',
                   description = ''Clean water'', end_date = 1767225600,
                   banner_image = None, cover_image = None\<rparr>) \<and>
   select_user_by_email (users example_store) (JStr ''donor@example.org'')
     = Some \<lparr>id_user = 3, username = ''alice'', email = ''donor@example.org'',
              password = ''hash:secret''\<rparr> \<and>
   stripe_webhook
     (accept_signed (charge_event_amount (JInt (10 ^ 400)) [(''id'', JInt 7)] ''donor@example.org'')
        1704067200)
     example_cause_key ''whsec'' 1704067200 example_store ''payload'' (Some ''whsec'')
     = (Inl (Raised OverflowError), example_store) \<and>
   status_code (fst (stripe_webhook
     (accept_signed (charge_event_amount (JInt (10 ^ 400)) [(''id'', JInt 7)] ''donor@example.org'')
        1704067200)
     example_cause_key ''whsec'' 1704067200 example_store ''payload'' (Some ''whsec''))) = 500"
proof -
  let ?ev = "charge_event_amount (JInt (10 ^ 400)) [(''id'', JInt 7)] ''donor@example.org''"
  have h1: "accept_signed ?ev 1704067200 1704067200 ''payload'' (Some ''whsec'') ''whsec''
              = Inr ?ev"
    by (simp add: accept_signed_def)
  have h2: "getitem ?ev ''type'' = Inr (JStr ''charge.succeeded'')"
    by (simp add: charge_event_amount_def)
  have h3: "getitems ?ev [''data'', ''object'', ''metadata''] = Inr (JObj [(''id'', JInt 7)])"
    by (simp add: charge_event_amount_def)
  have h4: "getitems ?ev [''data'', ''object'', ''amount''] = Inr (JInt (10 ^ 400))"
    by (simp add: charge_event_amount_def)
  have h5: "getitem (JObj [(''id'', JInt 7)]) ''id'' = Inr (JInt 7)"
    by simp
  have c: "session_get example_cause_key (causes example_store) (JInt 7)
     = Inr (Some \<lparr>id_cause = 7, name = ''Wells'', tagline = ''Water'',
                   description = ''Clean water'', end_date = 1767225600,
                   banner_image = None, cover_image = None\<rparr>)"
    by (simp add: session_get_def example_cause_key_def example_store_def)
  have h7: "getitems ?ev [''data'', ''object'', ''billing_details'', ''email'']
              = Inr (JStr ''donor@example.org'')"
    by (simp add: charge_event_amount_def)
  have u: "select_user_by_email (users example_store) (JStr ''donor@example.org'')
     = Some \<lparr>id_user = 3, username = ''alice'', email = ''donor@example.org'',
              password = ''hash:secret''\<rparr>"
    by (simp add: select_user_by_email_def example_store_def)
  have res: "stripe_webhook (accept_signed ?ev 1704067200) example_cause_key ''whsec''
               1704067200 example_store ''payload'' (Some ''whsec'')
             = (Inl (Raised OverflowError), example_store)"
    by (rule quotient_overflow_raises
          [where construct_event = "accept_signed ?ev 1704067200" and now = 1704067200
             and payload = "''payload''" and sig_header = "Some ''whsec''"
             and endpoint_secret = "''whsec''",
           OF h1 h2 h3 h4 h5 c h7 u truediv_100_overflow])
  have "status_code (fst (Inl (Raised OverflowError) :: failure + response, example_store))
          = 500"
    by simp
  with res c u show ?thesis
    by (simp only: simp_thms)
qed

text \<open>
  C1, amended. A \<^verbatim>\<open>charge.succeeded\<close> event that the provider's library accepts,
  whose metadata \<^verbatim>\<open>id\<close> the database takes for the key of a cause in the table, whose
  billing email is that of a user in the table, and whose integer amount has a float
  quotient by 100, is answered with status 200, and the store after it is the store
  before it with exactly one donation appended. Its amount is that float quotient, which
  differs from the exact quotient by a relative error of \<open>2 ^ -53\<close> at most; its donor and
  cause are the user and the cause found.
\<close>

theorem charge_succeeded_records_one_donation:
  assumes "construct_event now payload sig_header endpoint_secret = Inr event"
    and "getitem event ''type'' = Inr (JStr ''charge.succeeded'')"
    and "getitems event [''data'', ''object'', ''metadata'', ''id''] = Inr key"
    and "cause_key key = Inr (Some i)"
    and "distinct (map id_cause (causes st))"
    and "c \<in> set (causes st)"
    and "id_cause c = i"
    and "getitems event [''data'', ''object'', ''amount''] = Inr (JInt minor)"
    and "binary64 (of_int minor / 100) = Some a"
    and "getitems event [''data'', ''object'', ''billing_details'', ''email''] = Inr (JStr e)"
    and "find (\<lambda>u. email u = e) (users st) = Some u"
  shows "stripe_webhook construct_event cause_key endpoint_secret now st payload sig_header =
           (Inr (Response 200),
            st\<lparr>donations := donations st @
                  [\<lparr>id_donation = donation_seq st, amount = a,
                    created_at = now, donor_id = id_user u, cause_id = id_cause c\<rparr>],
                donation_seq := donation_seq st + 1\<rparr>) \<and>
         \<bar>a - of_int minor / 100\<bar> \<le> \<bar>of_int minor / 100\<bar> / 2 ^ 53"
proof -
  from assms(3) obtain data where
    d: "getitems event [''data'', ''object'', ''metadata''] = Inr data" and
    k: "getitem data ''id'' = Inr key"
    using getitems_snoc [of event "[''data'', ''object'', ''metadata'']" "''id''"]
    by (auto split: sum.splits)
  from assms(5-7) have "find (\<lambda>y. id_cause y = i) (causes st) = Some c"
    by (rule find_distinct_key)
  with assms(4) have g: "session_get cause_key (causes st) key = Inr (Some c)"
    by (simp add: session_get_def)
  from assms(11) have s: "select_user_by_email (users st) (JStr e) = Some u"
    by (simp add: select_user_by_email_def)
  from assms(9) have t: "truediv_100 (JInt minor) = Inr a"
    by (simp add: truediv_100_def)
  have "charge_succeeded cause_key now st event =
          Inr (st\<lparr>donations := donations st @
                  [\<lparr>id_donation = donation_seq st, amount = a,
                    created_at = now, donor_id = id_user u, cause_id = id_cause c\<rparr>],
                donation_seq := donation_seq st + 1\<rparr>)"
    unfolding charge_succeeded_def
    by (simp only: d k g s t assms(8,10) sum.case option.case)
  then have "stripe_webhook construct_event cause_key endpoint_secret now st payload sig_header =
           (Inr (Response 200),
            st\<lparr>donations := donations st @
                  [\<lparr>id_donation = donation_seq st, amount = a,
                    created_at = now, donor_id = id_user u, cause_id = id_cause c\<rparr>],
                donation_seq := donation_seq st + 1\<rparr>)"
    unfolding stripe_webhook_def
    by (simp add: assms(1,2))
  with quotient_by_100_error [OF assms(9)] show ?thesis
    by (rule conjI [rotated])
qed

theorem charge_succeeded_records_one_donation_witness:
  "stripe_webhook
     (accept_signed (charge_event [(''id'', JStr ''7'')] ''donor@example.org'') 1704067200)
     example_cause_key ''whsec'' 1704067200 two_row_store ''payload'' (Some ''whsec'') =
   (Inr (Response 200),
    two_row_store\<lparr>donations :=
        [\<lparr>id_donation = 1, amount = 10, created_at = 1704000000, donor_id = 5,
          cause_id = 9\<rparr>,
         \<lparr>id_donation = 2, amount = 25, created_at = 1704067200, donor_id = 3,
          cause_id = 7\<rparr>],
      donation_seq := 3\<rparr>)"
proof -
  let ?ev = "charge_event [(''id'', JStr ''7'')] ''donor@example.org''"
  let ?c = "\<lparr>id_cause = 7, name = ''Wells'', tagline = ''Water'', description = ''Clean water'',
             end_date = 1767225600, banner_image = None, cover_image = None\<rparr>"
  let ?u = "\<lparr>id_user = 3, username = ''alice'', email = ''donor@example.org'',
             password = ''hash:secret''\<rparr>"
  have h1: "accept_signed ?ev 1704067200 1704067200 ''payload'' (Some ''whsec'') ''whsec''
              = Inr ?ev"
    by (simp add: accept_signed_def)
  have h2: "getitem ?ev ''type'' = Inr (JStr ''charge.succeeded'')"
    by (simp add: charge_event_def)
  have h3: "getitems ?ev [''data'', ''object'', ''metadata'', ''id''] = Inr (JStr ''7'')"
    by (simp add: charge_event_def)
  have h4: "example_cause_key (JStr ''7'') = Inr (Some 7)"
    by (simp add: example_cause_key_def)
  have h5: "distinct (map id_cause (causes two_row_store))"
    by (simp add: two_row_store_def)
  have h6: "?c \<in> set (causes two_row_store)"
    by (simp add: two_row_store_def)
  have h7: "id_cause ?c = 7"
    by simp
  have h8: "getitems ?ev [''data'', ''object'', ''amount''] = Inr (JInt 2500)"
    by (simp add: charge_event_def)
  have h9: "binary64 (of_int 2500 / 100) = Some 25"
    using truediv_100_2500 by (simp add: truediv_100_def split: option.splits)
  have h10: "getitems ?ev [''data'', ''object'', ''billing_details'', ''email'']
              = Inr (JStr ''donor@example.org'')"
    by (simp add: charge_event_def)
  have h11: "find (\<lambda>u. email u = ''donor@example.org'') (users two_row_store) = Some ?u"
    by (simp add: two_row_store_def)
  from charge_succeeded_records_one_donation
      [where construct_event = "accept_signed ?ev 1704067200" and payload = "''payload''"
         and sig_header = "Some ''whsec''" and endpoint_secret = "''whsec''"
         and now = 1704067200 and cause_key = example_cause_key,
       OF h1 h2 h3 h4 h5 h6 h7 h8 h9 h10 h11]
  show ?thesis
    by (simp add: two_row_store_def)
qed

text \<open>
  C2, as the claim states it: the state after the second delivery of an event would be
  the state after the first. For the example event it is not: the second delivery, one
  minute after the first and accepted like it, records a second donation.
\<close>

theorem redelivery_counterexample:
  "length (donations (snd (stripe_webhook
       (accept_signed (charge_event [(''id'', JInt 7)] ''donor@example.org'') 1704067200)
       example_cause_key ''whsec'' 1704067200 example_store ''payload'' (Some ''whsec'')))) = 1 \<and>
   length (donations (snd (stripe_webhook
       (accept_signed (charge_event [(''id'', JInt 7)] ''donor@example.org'') 1704067200)
       example_cause_key ''whsec'' 1704067260
       (snd (stripe_webhook
          (accept_signed (charge_event [(''id'', JInt 7)] ''donor@example.org'') 1704067200)
          example_cause_key ''whsec'' 1704067200 example_store ''payload'' (Some ''whsec'')))
       ''payload'' (Some ''whsec'')))) = 2 \<and>
   snd (stripe_webhook
       (accept_signed (charge_event [(''id'', JInt 7)] ''donor@example.org'') 1704067200)
       example_cause_key ''whsec'' 1704067260
       (snd (stripe_webhook
          (accept_signed (charge_event [(''id'', JInt 7)] ''donor@example.org'') 1704067200)
          example_cause_key ''whsec'' 1704067200 example_store ''payload'' (Some ''whsec'')))
       ''payload'' (Some ''whsec''))
   \<noteq> snd (stripe_webhook
       (accept_signed (charge_event [(''id'', JInt 7)] ''donor@example.org'') 1704067200)
       example_cause_key ''whsec'' 1704067200 example_store ''payload'' (Some ''whsec''))"
  by (simp add: stripe_webhook_def accept_signed_def charge_event_def charge_succeeded_def
        example_store_def session_get_def example_cause_key_def select_user_by_email_def
        truediv_100_2500)

text \<open>
  C2, amended. A second delivery of a payload that the provider's library gives the
  verdict of the first delivery (the same event, or the same exception; the header and
  the time of the second delivery may differ) repeats what the first delivery did. When
  the first delivery left the store as it was (a rejected signature, another event type,
  a failure in the branch), so does the second, with the same answer. When the first
  delivery recorded a donation, the second is answered with status 200 and records one
  more donation, equal to the first but for its key and its creation time.
\<close>

theorem redelivery_repeats_first_delivery:
  assumes "stripe_webhook construct_event cause_key endpoint_secret t1 st payload sig_header1
             = (res1, st1)"
    and "construct_event t2 payload sig_header2 endpoint_secret
           = construct_event t1 payload sig_header1 endpoint_secret"
  shows "(st1 = st \<longrightarrow>
            stripe_webhook construct_event cause_key endpoint_secret t2 st1 payload sig_header2
              = (res1, st1)) \<and>
         (st1 \<noteq> st \<longrightarrow>
            (\<exists>d. donations st1 = donations st @ [d] \<and>
                 fst (stripe_webhook construct_event cause_key endpoint_secret t2 st1 payload
                        sig_header2)
                   = Inr (Response 200) \<and>
                 donations (snd (stripe_webhook construct_event cause_key endpoint_secret t2 st1
                                   payload sig_header2))
                   = donations st @ [d, d\<lparr>id_donation := id_donation d + 1, created_at := t2\<rparr>]))"
proof (cases "construct_event t1 payload sig_header1 endpoint_secret")
  case (Inl e)
  with assms(2) have "construct_event t2 payload sig_header2 endpoint_secret = Inl e"
    by simp
  with assms(1) Inl show ?thesis
    by (cases e) (auto simp: stripe_webhook_def)
next
  case (Inr event)
  note ev1 = Inr
  from assms(2) Inr have ev2: "construct_event t2 payload sig_header2 endpoint_secret = Inr event"
    by simp
  show ?thesis
  proof (cases "getitem event ''type''")
    case (Inl x)
    with assms(1) ev1 ev2 show ?thesis by (auto simp: stripe_webhook_def)
  next
    case (Inr ty)
    note ty = Inr
    show ?thesis
    proof (cases "ty = JStr ''charge.succeeded''")
      case False
      with assms(1) ev1 ev2 ty show ?thesis by (auto simp: stripe_webhook_def)
    next
      case True
      show ?thesis
      proof (cases "charge_succeeded cause_key t1 st event")
        case (Inl f)
        with assms(1) ev1 ty True have r: "res1 = Inl f" "st1 = st"
          by (auto simp: stripe_webhook_def)
        from charge_succeeded_Inl [OF Inl, of st t2]
        have "charge_succeeded cause_key t2 st event = Inl f"
          by simp
        with r ev2 ty True show ?thesis by (simp add: stripe_webhook_def)
      next
        case (Inr st')
        with assms(1) ev1 ty True have r: "res1 = Inr (Response 200)" "st1 = st'"
          by (auto simp: stripe_webhook_def)
        from charge_succeeded_Inr [OF Inr] obtain a uid cid where
          st': "st' = st\<lparr>donations := donations st @
                     [\<lparr>id_donation = donation_seq st, amount = a, created_at = t1,
                       donor_id = uid, cause_id = cid\<rparr>],
                   donation_seq := donation_seq st + 1\<rparr>" and
          again: "\<And>now2 st2. users st2 = users st \<Longrightarrow> causes st2 = causes st \<Longrightarrow>
              charge_succeeded cause_key now2 st2 event =
                Inr (st2\<lparr>donations := donations st2 @
                       [\<lparr>id_donation = donation_seq st2, amount = a, created_at = now2,
                         donor_id = uid, cause_id = cid\<rparr>],
                     donation_seq := donation_seq st2 + 1\<rparr>)"
          by blast
        have uc: "users st' = users st" "causes st' = causes st"
          by (simp_all add: st')
        have ne: "st' \<noteq> st"
        proof
          assume "st' = st"
          then have "donation_seq st' = donation_seq st" by simp
          then show False by (simp add: st')
        qed
        have d1: "donations st' = donations st @
                     [\<lparr>id_donation = donation_seq st, amount = a, created_at = t1,
                       donor_id = uid, cause_id = cid\<rparr>]"
          by (simp add: st')
        have s1: "donation_seq st' = donation_seq st + 1"
          by (simp add: st')
        have "stripe_webhook construct_event cause_key endpoint_secret t2 st' payload sig_header2 =
                (Inr (Response 200),
                 st'\<lparr>donations := donations st' @
                       [\<lparr>id_donation = donation_seq st', amount = a, created_at = t2,
                         donor_id = uid, cause_id = cid\<rparr>],
                     donation_seq := donation_seq st' + 1\<rparr>)"
          by (simp add: stripe_webhook_def ev2 ty True again [OF uc])
        then show ?thesis
          using r ne d1 s1 by simp
      qed
    qed
  qed
qed

theorem redelivery_repeats_first_delivery_witness:
  "donations (snd (stripe_webhook
       (accept_signed (charge_event [(''id'', JInt 7)] ''donor@example.org'') 1704067200)
       example_cause_key ''whsec'' 1704067260
       (snd (stripe_webhook
          (accept_signed (charge_event [(''id'', JInt 7)] ''donor@example.org'') 1704067200)
          example_cause_key ''whsec'' 1704067200 example_store ''payload'' (Some ''whsec'')))
       ''payload'' (Some ''whsec'')))
     = [\<lparr>id_donation = 1, amount = 25, created_at = 1704067200, donor_id = 3, cause_id = 7\<rparr>,
        \<lparr>id_donation = 2, amount = 25, created_at = 1704067260, donor_id = 3, cause_id = 7\<rparr>] \<and>
   stripe_webhook
     (accept_signed (charge_event [(''id'', JInt 8)] ''donor@example.org'') 1704067200)
     example_cause_key ''whsec'' 1704067260 example_store ''payload'' (Some ''whsec'')
     = (Inl (HTTPException 404 ''Cause or User not found'' []), example_store)"
proof -
  let ?ce = "accept_signed (charge_event [(''id'', JInt 7)] ''donor@example.org'') 1704067200"
  let ?st1 = "example_store\<lparr>donations :=
        [\<lparr>id_donation = 1, amount = 25, created_at = 1704067200, donor_id = 3,
          cause_id = 7\<rparr>],
      donation_seq := 2\<rparr>"
  have first: "stripe_webhook ?ce example_cause_key ''whsec'' 1704067200 example_store
                 ''payload'' (Some ''whsec'')
                 = (Inr (Response 200), ?st1)"
    by (simp add: stripe_webhook_def accept_signed_def charge_event_def charge_succeeded_def
          example_store_def session_get_def example_cause_key_def select_user_by_email_def
          truediv_100_2500)
  have verdict: "?ce 1704067260 ''payload'' (Some ''whsec'') ''whsec''
                   = ?ce 1704067200 ''payload'' (Some ''whsec'') ''whsec''"
    by (simp add: accept_signed_def)
  have changed: "?st1 \<noteq> example_store"
    by (simp add: example_store_def)
  have d: "donations ?st1 = donations example_store @
             [\<lparr>id_donation = 1, amount = 25, created_at = 1704067200, donor_id = 3,
               cause_id = 7\<rparr>]"
    by (simp add: example_store_def)
  from redelivery_repeats_first_delivery [OF first verdict] changed d
  have a: "donations (snd (stripe_webhook ?ce example_cause_key ''whsec'' 1704067260 ?st1
              ''payload'' (Some ''whsec'')))
           = [\<lparr>id_donation = 1, amount = 25, created_at = 1704067200, donor_id = 3,
                cause_id = 7\<rparr>,
              \<lparr>id_donation = 2, amount = 25, created_at = 1704067260, donor_id = 3,
                cause_id = 7\<rparr>]"
    by (auto simp: example_store_def)
  let ?ce8 = "accept_signed (charge_event [(''id'', JInt 8)] ''donor@example.org'') 1704067200"
  have first8: "stripe_webhook ?ce8 example_cause_key ''whsec'' 1704067200 example_store
                  ''payload'' (Some ''whsec'')
                 = (Inl (HTTPException 404 ''Cause or User not found'' []), example_store)"
    by (simp add: stripe_webhook_def accept_signed_def charge_event_def charge_succeeded_def
          example_store_def session_get_def example_cause_key_def select_user_by_email_def)
  have verdict8: "?ce8 1704067260 ''payload'' (Some ''whsec'') ''whsec''
                   = ?ce8 1704067200 ''payload'' (Some ''whsec'') ''whsec''"
    by (simp add: accept_signed_def)
  from redelivery_repeats_first_delivery [OF first8 verdict8]
  have b: "stripe_webhook ?ce8 example_cause_key ''whsec'' 1704067260 example_store
             ''payload'' (Some ''whsec'')
             = (Inl (HTTPException 404 ''Cause or User not found'' []), example_store)"
    by simp
  from a b first show ?thesis
    by simp
qed

text \<open>
  C4. The checkout initiator stores the cause identifier under the metadata key
  \<^verbatim>\<open>cause_id\<close>; the webhook handler reads the key \<^verbatim>\<open>id\<close>. For a \<^verbatim>\<open>charge.succeeded\<close>
  event that carries exactly the metadata of a checkout request, the subscript
  \<^verbatim>\<open>data["id"]\<close> raises \<^verbatim>\<open>KeyError\<close>, the handler ends with an uncaught exception and
  the store is as before: no donation is recorded.
\<close>

theorem checkout_metadata_is_not_found_by_webhook:
  assumes "create_checkout_session provider domain_url st0 ident = (res, [params])"
    and "construct_event now payload sig_header endpoint_secret = Inr event"
    and "getitem event ''type'' = Inr (JStr ''charge.succeeded'')"
    and "getitems event [''data'', ''object'', ''metadata''] = Inr (JObj (metadata params))"
  shows "metadata params = [(''cause_id'', JInt ident)] \<and>
         getitem (JObj (metadata params)) ''id'' = Inl (KeyError ''id'') \<and>
         (\<exists>x. stripe_webhook construct_event cause_key endpoint_secret now st payload sig_header
                = (Inl (Raised x), st)) \<and>
         (\<forall>a. getitems event [''data'', ''object'', ''amount''] = Inr a \<longrightarrow>
              stripe_webhook construct_event cause_key endpoint_secret now st payload sig_header
                = (Inl (Raised (KeyError ''id'')), st))"
proof -
  from assms(1) have m: "metadata params = [(''cause_id'', JInt ident)]"
    unfolding create_checkout_session_def Let_def
    by (auto split: option.splits sum.splits)
  then have k: "getitem (JObj (metadata params)) ''id'' = Inl (KeyError ''id'')"
    by simp
  have amt: "stripe_webhook construct_event cause_key endpoint_secret now st payload sig_header
               = (Inl (Raised (KeyError ''id'')), st)"
    if "getitems event [''data'', ''object'', ''amount''] = Inr a" for a
    unfolding stripe_webhook_def charge_succeeded_def
    by (simp only: assms(2-4) that k sum.case prod.case) simp
  have "\<exists>x. stripe_webhook construct_event cause_key endpoint_secret now st payload sig_header
               = (Inl (Raised x), st)"
  proof (cases "getitems event [''data'', ''object'', ''amount'']")
    case (Inl x)
    have "stripe_webhook construct_event cause_key endpoint_secret now st payload sig_header
               = (Inl (Raised x), st)"
      unfolding stripe_webhook_def charge_succeeded_def
      by (simp only: assms(2-4) Inl sum.case prod.case) simp
    then show ?thesis by blast
  next
    case (Inr a)
    from amt [OF Inr] show ?thesis by blast
  qed
  with m k amt show ?thesis by blast
qed

theorem checkout_metadata_is_not_found_by_webhook_witness:
  "stripe_webhook
     (accept_signed (charge_event [(''cause_id'', JInt 7)] ''donor@example.org'') 1704067200)
     example_cause_key ''whsec'' 1704067200 example_store ''payload'' (Some ''whsec'')
     = (Inl (Raised (KeyError ''id'')), example_store)"
proof -
  let ?ev = "charge_event [(''cause_id'', JInt 7)] ''donor@example.org''"
  let ?params = "\<lparr>payment_method_types = [''card''], mode = ''payment'',
      success_url = ''http://srv/donation/payment/success'',
      cancel_url = ''http://srv/donation/payment/cancel'',
      line_items = [JObj [(''price'', JStr ''price_1QDNjALZvTUR5WIHOFYuOVUs''),
                          (''quantity'', JInt 1)]],
      metadata = [(''cause_id'', JInt 7)]\<rparr>"
  have h1: "create_checkout_session (\<lambda>p. Inr ''https://pay'') ''http://srv'' example_store 7
              = (Inr (RedirectResponse ''https://pay'' 303), [?params])"
    by (simp add: create_checkout_session_def example_store_def)
  have h2: "accept_signed ?ev 1704067200 1704067200 ''payload'' (Some ''whsec'') ''whsec''
              = Inr ?ev"
    by (simp add: accept_signed_def)
  have h3: "getitem ?ev ''type'' = Inr (JStr ''charge.succeeded'')"
    by (simp add: charge_event_def)
  have h4: "getitems ?ev [''data'', ''object'', ''metadata''] = Inr (JObj (metadata ?params))"
    by (simp add: charge_event_def)
  have h5: "getitems ?ev [''data'', ''object'', ''amount''] = Inr (JInt 2500)"
    by (simp add: charge_event_def)
  from checkout_metadata_is_not_found_by_webhook
    [where construct_event = "accept_signed ?ev 1704067200" and payload = "''payload''"
       and sig_header = "Some ''whsec''" and endpoint_secret = "''whsec''"
       and provider = "\<lambda>p. Inr ''https://pay''" and now = 1704067200
       and st = example_store and cause_key = example_cause_key, OF h1 h2 h3 h4]
  show ?thesis
    using h5 by blast
qed

text \<open>
  C5, at the failing input: a \<^verbatim>\<open>charge.succeeded\<close> event for the existing cause 7
  whose billing email belongs to no user. The handler ends with an uncaught
  \<^verbatim>\<open>TypeError\<close>, which the framework answers with status 500, not with 404. The store
  is as before.
\<close>

theorem unknown_donor_raises_TypeError:
  "stripe_webhook
     (accept_signed (charge_event [(''id'', JInt 7)] ''nobody@example.org'') 1704067200)
     example_cause_key ''whsec'' 1704067200 example_store ''payload'' (Some ''whsec'')
     = (Inl (Raised TypeError), example_store) \<and>
   status_code (fst (stripe_webhook
       (accept_signed (charge_event [(''id'', JInt 7)] ''nobody@example.org'') 1704067200)
       example_cause_key ''whsec'' 1704067200 example_store ''payload'' (Some ''whsec''))) = 500"
  by (simp add: stripe_webhook_def accept_signed_def charge_event_def charge_succeeded_def
        example_store_def session_get_def example_cause_key_def select_user_by_email_def)

text \<open>
  C8. When the provider's library rejects the signature, the handler answers with status
  400 and the store is as before, whatever the payload is.
\<close>

theorem invalid_signature_rejected_without_mutation:
  assumes "construct_event now payload sig_header endpoint_secret
             = Inl SignatureVerificationError"
  shows "stripe_webhook construct_event cause_key endpoint_secret now st payload sig_header
           = (Inl (HTTPException 400 ''Invalid signature'' []), st)"
  using assms by (simp add: stripe_webhook_def)

theorem invalid_signature_rejected_without_mutation_witness:
  "stripe_webhook
     (accept_signed (charge_event [(''id'', JInt 7)] ''donor@example.org'') 1704067200)
     example_cause_key ''whsec'' 1704067200 example_store ''payload'' (Some ''forged'')
     = (Inl (HTTPException 400 ''Invalid signature'' []), example_store)"
proof -
  have h: "accept_signed (charge_event [(''id'', JInt 7)] ''donor@example.org'') 1704067200
             1704067200 ''payload'' (Some ''forged'') ''whsec'' = Inl SignatureVerificationError"
    by (simp add: accept_signed_def)
  show ?thesis
    by (rule invalid_signature_rejected_without_mutation
          [where construct_event =
             "accept_signed (charge_event [(''id'', JInt 7)] ''donor@example.org'') 1704067200",
           OF h])
qed

text \<open>
  C9. An accepted event whose type is not \<^verbatim>\<open>charge.succeeded\<close> is answered with status
  200 and the store is as before.
\<close>

theorem other_event_types_acknowledged:
  assumes "construct_event now payload sig_header endpoint_secret = Inr event"
    and "getitem event ''type'' = Inr ty"
    and "ty \<noteq> JStr ''charge.succeeded''"
  shows "stripe_webhook construct_event cause_key endpoint_secret now st payload sig_header
           = (Inr (Response 200), st)"
  using assms by (simp add: stripe_webhook_def)

theorem other_event_types_acknowledged_witness:
  "stripe_webhook
     (accept_signed (JObj [(''id'', JStr ''evt_2''), (''type'', JStr ''charge.failed'')])
        1704067200)
     example_cause_key ''whsec'' 1704067200 example_store ''payload'' (Some ''whsec'')
     = (Inr (Response 200), example_store)"
proof -
  let ?ev = "JObj [(''id'', JStr ''evt_2''), (''type'', JStr ''charge.failed'')]"
  have h1: "accept_signed ?ev 1704067200 1704067200 ''payload'' (Some ''whsec'') ''whsec''
              = Inr ?ev"
    by (simp add: accept_signed_def)
  have h2: "getitem ?ev ''type'' = Inr (JStr ''charge.failed'')"
    by simp
  have h3: "JStr ''charge.failed'' \<noteq> JStr ''charge.succeeded''"
    by simp
  show ?thesis
    by (rule other_event_types_acknowledged
          [where construct_event = "accept_signed ?ev 1704067200", OF h1 h2 h3])
qed

section \<open>Claims about the checkout session\<close>



section \<open>Claims about tokens and login\<close>

text \<open>
  The library's check of the expiry is in the model: a token whose claims carry an integer
  \<^verbatim>\<open>exp\<close> is refused once that instant has passed.
\<close>

lemma jwt_decode_exp:
  "jwt_decode now (jwt_encode (AList.update ''exp'' (JInt e) claims) key alg) key alg =
     (if e < now then None else Some (AList.update ''exp'' (JInt e) claims))"
  by (simp add: jwt_decode_def jwt_encode_def update_conv')

text \<open>
  A token of \<^verbatim>\<open>create_access_token\<close> for a string identity is accepted at every
  instant: its expiry is under the key \<^verbatim>\<open>expire\<close>, which neither the library nor
  \<^verbatim>\<open>verify_token_access\<close> reads.
\<close>

lemma created_token_is_accepted_at_any_time:
  "verify_token_access key later (create_access_token key now [(''user_id'', JStr uid)]) e
     = Inr \<lparr>id_DataToken = Some uid\<rparr>"
  by (simp add: verify_token_access_def create_access_token_def jwt_encode_def jwt_decode_def
        dict_get_def DataToken_init_def Let_def)

text \<open>
  A token of \<^verbatim>\<open>create_access_token\<close> for an integer identity, as the login handler
  issues it, is not converted to the string field of \<^verbatim>\<open>DataToken\<close>.
\<close>

lemma created_token_with_integer_id:
  "verify_token_access key later (create_access_token key now [(''user_id'', JInt i)]) e
     = Inl (Raised ValidationError)"
  by (simp add: verify_token_access_def create_access_token_def jwt_encode_def jwt_decode_def
        dict_get_def DataToken_init_def Let_def)

text \<open>
  \<^verbatim>\<open>get_current_user\<close> for a verified token whose identity selects no row, and the
  two failures of the login handler.
\<close>

lemma get_current_user_unknown_identity:
  assumes "verify_token_access key now tok credentials_exception = Inr token_data"
    and "find (\<lambda>u. Some (id_user u) = Option.bind (id_DataToken token_data) key_of_str)
           (users st) = None"
  shows "get_current_user key_of_str key now st tok = Inl (Raised TypeError)"
  using assms by (simp add: get_current_user_def)

lemma get_current_user_invalid_token:
  "get_current_user key_of_str key now st (Opaque s) = Inl credentials_exception"
  by (simp add: get_current_user_def verify_token_access_def jwt_decode_def)

lemma login_unknown_username:
  assumes "find (\<lambda>u. username u = uname) (users st) = None"
  shows "register_login verify_password key now st uname pw
           = Inl (HTTPException 400 ''Invalid credentials'' [])"
  using assms by (simp add: register_login_def)

lemma login_wrong_password:
  assumes "find (\<lambda>u. username u = uname) (users st) = Some u"
    and "\<not> verify_password pw (password u)"
  shows "register_login verify_password key now st uname pw
           = Inl (HTTPException 401 ''Invalid credentials'' [])"
  using assms by (simp add: register_login_def)

text \<open>
  C3, at the failing inputs. A token issued at 2024-01-01 00:00:00 for the identity
  \<open>u1\<close> is verified one second after its 30 minutes have passed, and the verification
  returns the identity instead of failing. A token issued for the integer identity 3 is
  verified at the instant of its issue, and the verification raises
  \<^verbatim>\<open>ValidationError\<close> instead of returning the identity.
\<close>

theorem token_verified_after_expiry:
  "verify_token_access ''k'' (1704067200 + 30 * 60 + 1)
     (create_access_token ''k'' 1704067200 [(''user_id'', JStr ''u1'')]) credentials_exception
     = Inr \<lparr>id_DataToken = Some ''u1''\<rparr> \<and>
   verify_token_access ''k'' 1704067200
     (create_access_token ''k'' 1704067200 [(''user_id'', JInt 3)]) credentials_exception
     = Inl (Raised ValidationError)"
  by (simp add: verify_token_access_def create_access_token_def jwt_encode_def jwt_decode_def
        dict_get_def DataToken_init_def Let_def)

text \<open>
  C6, at the failing input. A token that verifies, for the identity \<open>42\<close> that no user
  of the example store has, ends \<^verbatim>\<open>get_current_user\<close> with an uncaught
  \<^verbatim>\<open>TypeError\<close>; a string that is no token ends it with the \<^verbatim>\<open>HTTPException\<close> 401.
  The two failures differ. A token for the identity of the stored user returns that user.
\<close>

theorem unknown_user_is_not_unauthorized:
  "get_current_user example_key_of_str ''k'' 1704067260 example_store
     (create_access_token ''k'' 1704067200 [(''user_id'', JStr ''42'')])
     = Inl (Raised TypeError) \<and>
   get_current_user example_key_of_str ''k'' 1704067260 example_store (Opaque ''not a token'')
     = Inl (HTTPException 401 ''Could not Validate Credentials''
              [(''WWW-Authenticate'', ''Bearer'')]) \<and>
   get_current_user example_key_of_str ''k'' 1704067260 example_store
     (create_access_token ''k'' 1704067200 [(''user_id'', JStr ''3'')])
     = Inr \<lparr>id_user = 3, username = ''alice'', email = ''donor@example.org'',
             password = ''hash:secret''\<rparr>"
  by (simp add: get_current_user_def credentials_exception_def verify_token_access_def
        create_access_token_def jwt_encode_def jwt_decode_def dict_get_def DataToken_init_def
        example_key_of_str_def example_store_def Let_def)

text \<open>
  C7, at the failing input. With a wrong password, the login of the existing user
  \<open>alice\<close> ends with status 401 and the login of the unknown user \<open>bob\<close> with status
  400: the caller can tell them apart. With the right password, the token that the
  login returns carries the integer key of the user, and its verification raises
  \<^verbatim>\<open>ValidationError\<close>.
\<close>

theorem login_status_depends_on_username:
  "register_login example_verify_password ''k'' 1704067200 example_store ''alice'' ''wrong''
     = Inl (HTTPException 401 ''Invalid credentials'' []) \<and>
   register_login example_verify_password ''k'' 1704067200 example_store ''bob'' ''wrong''
     = Inl (HTTPException 400 ''Invalid credentials'' []) \<and>
   register_login example_verify_password ''k'' 1704067200 example_store ''alice'' ''secret''
     = Inr \<lparr>access_token =
              create_access_token ''k'' 1704067200 [(''user_id'', JInt 3)],
            token_type = ''bearer''\<rparr> \<and>
   verify_token_access ''k'' 1704067260
     (create_access_token ''k'' 1704067200 [(''user_id'', JInt 3)]) credentials_exception
     = Inl (Raised ValidationError)"
  by (simp add: register_login_def example_verify_password_def example_store_def
        verify_token_access_def create_access_token_def jwt_encode_def jwt_decode_def
        dict_get_def DataToken_init_def Let_def)

end
